theory Spec2Isabelle
  imports Main
begin

section \<open>Python values\<close>

text \<open>
  The request body the client builds and the response it receives are Python values made
  of \<open>None\<close>, booleans, integers, floats, strings, lists and dictionaries. A dictionary is
  an association list in insertion order; a lookup takes the first entry of a key. A float
  \<open>JFloat m e\<close> stands for the finite number \<open>m * 2 ^ e\<close>. A \<open>char\<close> stands for one
  character of a Python string.
\<close>

datatype json =
    JNull
  | JBool bool
  | JInt int
  | JFloat int int
  | JStr string
  | JArr "json list"
  | JObj "(string \<times> json) list"

text \<open>Python's truth value of an object (\<open>if x:\<close>, \<open>not x\<close>, \<open>x or y\<close>).\<close>

fun truthy :: "json \<Rightarrow> bool" where
  "truthy JNull = False"
| "truthy (JBool b) = b"
| "truthy (JInt i) = (i \<noteq> 0)"
| "truthy (JFloat m e) = (m \<noteq> 0)"
| "truthy (JStr s) = (s \<noteq> [])"
| "truthy (JArr xs) = (xs \<noteq> [])"
| "truthy (JObj kvs) = (kvs \<noteq> [])"

text \<open>
  An argument of type \<open>str | None\<close>: \<open>None\<close> and the empty string are false.
\<close>

fun truthy_opt :: "string option \<Rightarrow> bool" where
  "truthy_opt None = False"
| "truthy_opt (Some s) = (s \<noteq> [])"

text \<open>\<open>d[k] = v\<close> on a dictionary: an existing key keeps its place, a new key goes last.\<close>

fun setitem :: "string \<Rightarrow> json \<Rightarrow> (string \<times> json) list \<Rightarrow> (string \<times> json) list" where
  "setitem k v [] = [(k, v)]"
| "setitem k v ((k', v') # kvs) =
     (if k' = k then (k, v) # kvs else (k', v') # setitem k v kvs)"

text \<open>\<open>str(n)\<close> of a Python integer: its decimal digits, with a sign when negative.\<close>

fun str_nat :: "nat \<Rightarrow> string" where
  "str_nat n =
     (if n < 10 then [char_of (48 + n)]
      else str_nat (n div 10) @ [char_of (48 + n mod 10)])"

declare str_nat.simps [simp del]

definition str_int :: "int \<Rightarrow> string" where
  "str_int i = (if i < 0 then CHR ''-'' # str_nat (nat (- i)) else str_nat (nat i))"

section \<open>The search client (client.py)\<close>

definition SCHEMA_VERSION :: int where
  "SCHEMA_VERSION = 44"

definition REQUEST_TIMEOUT :: int where
  "REQUEST_TIMEOUT = 30"

definition MAX_RESULTS :: int where
  "MAX_RESULTS = 10000"

record client =
  base_url :: string
  username :: string
  password :: string

definition DEFAULT_USERNAME :: string where
  "DEFAULT_USERNAME = ''aWVSALXpZv''"

definition DEFAULT_PASSWORD :: string where
  "DEFAULT_PASSWORD = ''X8gPHnzL52wFEekuxsfQ9cSh''"

text \<open>\<open>s.rstrip("/")\<close>: the string without its trailing slashes.\<close>

definition rstrip_slash :: "string \<Rightarrow> string" where
  "rstrip_slash s = rev (dropWhile (\<lambda>c. c = CHR ''/'') (rev s))"

text \<open>\<open>NixOSSearchClient.__init__\<close>.\<close>

definition NixOSSearchClient :: "string \<Rightarrow> string option \<Rightarrow> string option \<Rightarrow> client" where
  "NixOSSearchClient url user pass =
     \<lparr> base_url = rstrip_slash url,
       username = (case user of Some u \<Rightarrow> if u \<noteq> [] then u else DEFAULT_USERNAME
                   | None \<Rightarrow> DEFAULT_USERNAME),
       password = (case pass of Some p \<Rightarrow> if p \<noteq> [] then p else DEFAULT_PASSWORD
                   | None \<Rightarrow> DEFAULT_PASSWORD) \<rparr>"

text \<open>
  \<open>must_clauses.append({"wildcard": {field: f"*{term}*"}})\<close> under \<open>if term:\<close>, for a
  term of type \<open>str | None\<close>.
\<close>

definition append_wildcard :: "string \<Rightarrow> string option \<Rightarrow> json list \<Rightarrow> json list" where
  "append_wildcard field term must_clauses =
     (case term of
        Some s \<Rightarrow>
          if s \<noteq> [] then
            must_clauses @ [JObj [(''wildcard'', JObj [(field, JStr (''*'' @ s @ ''*''))])]]
          else must_clauses
      | None \<Rightarrow> must_clauses)"

text \<open>\<open>NixOSSearchClient._build_query\<close>; the client object is not read.\<close>

definition build_query ::
  "string \<Rightarrow> string option \<Rightarrow> string option \<Rightarrow> string option \<Rightarrow> string option \<Rightarrow> string
     \<Rightarrow> json" where
  "build_query query name program version platform search_type =
     (let must_clauses = [];
          must_clauses =
            (if query \<noteq> [] then
               must_clauses @
               [JObj [(''dis_max'', JObj [(''queries'', JArr
                  [JObj [(''multi_match'', JObj
                     [(''query'', JStr query),
                      (''type'', JStr ''cross_fields''),
                      (''fields'', JArr (map JStr
                         (if search_type = ''packages'' then
                            [''package_attr_name^9'',
                             ''package_attr_name.*^5.3999999999999995'',
                             ''package_programs^9'',
                             ''package_programs.*^5.3999999999999995'',
                             ''package_pname^6'',
                             ''package_pname.*^3.5999999999999996'',
                             ''package_description^1.3'',
                             ''package_description.*^0.78'',
                             ''package_longDescription^1'',
                             ''package_longDescription.*^0.6'',
                             ''flake_name^0.5'']
                          else [''option_name^2'', ''option_description''])))])]])])]]
             else must_clauses);
          must_clauses = append_wildcard ''package_attr_name'' name must_clauses;
          must_clauses = append_wildcard ''package_programs'' program must_clauses;
          must_clauses = append_wildcard ''package_pversion'' version must_clauses;
          must_clauses =
            (case platform of
               Some p \<Rightarrow>
                 if p \<noteq> [] then
                   must_clauses @ [JObj [(''term'', JObj [(''package_platforms'', JStr p)])]]
                 else must_clauses
             | None \<Rightarrow> must_clauses)
      in JObj [(''query'', JObj [(''bool'', JObj [(''must'',
           JArr (if must_clauses \<noteq> [] then must_clauses
                 else [JObj [(''match_all'', JObj [])]]))])])])"

text \<open>
  The index of a search type and a channel (the first statement of \<open>search\<close>); the last
  branch is taken by every search type other than flakes and options.
\<close>

definition search_index :: "string \<Rightarrow> string \<Rightarrow> string" where
  "search_index search_type channel =
     (if search_type = ''flakes'' then
        ''latest-'' @ str_int SCHEMA_VERSION @ ''-nixos-flakes''
      else if search_type = ''options'' then
        (if channel = ''unstable'' then
           ''latest-'' @ str_int SCHEMA_VERSION @ ''-nixos-unstable-options''
         else ''latest-'' @ str_int SCHEMA_VERSION @ ''-nixos-'' @ channel @ ''-options'')
      else
        (if channel = ''unstable'' then
           ''latest-'' @ str_int SCHEMA_VERSION @ ''-nixos-unstable''
         else ''latest-'' @ str_int SCHEMA_VERSION @ ''-nixos-'' @ channel))"

text \<open>
  The request of \<open>search\<close>: the endpoint and the body, up to the \<open>try\<close> statement.
\<close>

definition search_endpoint :: "client \<Rightarrow> string \<Rightarrow> string \<Rightarrow> string" where
  "search_endpoint self search_type channel =
     base_url self @ ''/backend/'' @ search_index search_type channel @ ''/_search''"

definition search_body ::
  "string \<Rightarrow> string option \<Rightarrow> string option \<Rightarrow> string option \<Rightarrow> string option \<Rightarrow> string
     \<Rightarrow> int \<Rightarrow> int \<Rightarrow> json" where
  "search_body query name program version platform search_type size' from' =
     (case build_query query name program version platform search_type of
        JObj es_query \<Rightarrow>
          (let es_query = setitem ''size'' (JInt size') es_query;
               es_query = setitem ''from'' (JInt from') es_query;
               es_query = setitem ''sort''
                 (if search_type = ''packages'' then
                    JArr [JObj [(''_score'', JStr ''desc'')],
                          JObj [(''package_attr_name'', JStr ''desc'')]]
                  else JArr [JObj [(''_score'', JStr ''desc'')]]) es_query
           in JObj es_query)
      | other \<Rightarrow> other)"

text \<open>
  The network is a function from a request (endpoint, body, user name, password, timeout)
  to what \<open>requests.post\<close>, \<open>raise_for_status\<close> and \<open>response.json\<close> give: the decoded
  response, or one of the two exceptions \<open>search\<close> catches, with its message.
\<close>

datatype reply =
    Response json
  | RequestException string
  | JSONDecodeError string

type_synonym network = "string \<Rightarrow> json \<Rightarrow> string \<Rightarrow> string \<Rightarrow> int \<Rightarrow> reply"

definition send :: "network \<Rightarrow> client \<Rightarrow> string \<Rightarrow> json \<Rightarrow> reply" where
  "send net self endpoint es_query =
     net endpoint es_query (username self) (password self) REQUEST_TIMEOUT"

section \<open>The result renderer (formatter.py)\<close>

definition MAX_PROGRAMS_DISPLAY :: nat where
  "MAX_PROGRAMS_DISPLAY = 10"

definition MAX_DESCRIPTION_LENGTH :: nat where
  "MAX_DESCRIPTION_LENGTH = 150"

definition MAX_OPTION_DESCRIPTION_LENGTH :: nat where
  "MAX_OPTION_DESCRIPTION_LENGTH = 200"

definition MAX_DEFAULT_LENGTH :: nat where
  "MAX_DEFAULT_LENGTH = 100"

definition MAX_EXAMPLE_LENGTH :: nat where
  "MAX_EXAMPLE_LENGTH = 100"

definition PAGER_THRESHOLD :: nat where
  "PAGER_THRESHOLD = 10"

subsection \<open>Operations on values of any type\<close>

text \<open>
  The renderer reads fields of the response whose type is \<open>Any\<close>. An operation on a value
  of a type that does not support it raises; the program catches none of these exceptions
  and never looks at their class, so one value stands for all of them.
\<close>

datatype pyerr = Uncaught

definition andthen :: "pyerr + 'a \<Rightarrow> ('a \<Rightarrow> pyerr + 'b) \<Rightarrow> pyerr + 'b" where
  "andthen m f = (case m of Inl e \<Rightarrow> Inl e | Inr x \<Rightarrow> f x)"

text \<open>\<open>x.get(k, d)\<close>: only a dictionary has the method.\<close>

fun py_get :: "json \<Rightarrow> string \<Rightarrow> json \<Rightarrow> pyerr + json" where
  "py_get (JObj kvs) k d = Inr (case map_of kvs k of Some v \<Rightarrow> v | None \<Rightarrow> d)"
| "py_get x k d = Inl Uncaught"

text \<open>The keys of a dictionary, in insertion order.\<close>

definition keys :: "(string \<times> json) list \<Rightarrow> string list" where
  "keys kvs = rev (remdups (rev (map fst kvs)))"

text \<open>
  The elements a \<open>for\<close> loop, \<open>reversed\<close>, \<open>len\<close> and \<open>join\<close> see in a value: the items
  of a list, the characters of a string, the keys of a dictionary; no other value of the
  model is a sequence.
\<close>

fun py_iter :: "json \<Rightarrow> pyerr + json list" where
  "py_iter (JArr xs) = Inr xs"
| "py_iter (JStr s) = Inr (map (\<lambda>c. JStr [c]) s)"
| "py_iter (JObj kvs) = Inr (map JStr (keys kvs))"
| "py_iter x = Inl Uncaught"

definition py_len :: "json \<Rightarrow> pyerr + nat" where
  "py_len x = andthen (py_iter x) (\<lambda>xs. Inr (length xs))"

text \<open>\<open>x[:n]\<close>: a list and a string have slices, a dictionary and a number have none.\<close>

fun py_slice :: "nat \<Rightarrow> json \<Rightarrow> pyerr + json" where
  "py_slice n (JArr xs) = Inr (JArr (take n xs))"
| "py_slice n (JStr s) = Inr (JStr (take n s))"
| "py_slice n x = Inl Uncaught"

fun join :: "string \<Rightarrow> string list \<Rightarrow> string" where
  "join sep [] = []"
| "join sep [x] = x"
| "join sep (x # y # ys) = x @ sep @ join sep (y # ys)"

text \<open>\<open>sep.join(xs)\<close> of a Python list: every item has to be a string.\<close>

fun strings :: "json list \<Rightarrow> pyerr + string list" where
  "strings [] = Inr []"
| "strings (JStr s # xs) = andthen (strings xs) (\<lambda>ss. Inr (s # ss))"
| "strings (x # xs) = Inl Uncaught"

definition py_join :: "string \<Rightarrow> json \<Rightarrow> pyerr + string" where
  "py_join sep x =
     andthen (py_iter x) (\<lambda>xs. andthen (strings xs) (\<lambda>ss. Inr (join sep ss)))"

text \<open>
  \<open>str(x)\<close>, which is also what an f-string puts for \<open>{x}\<close>. The text of a float, a list
  and a dictionary is left to the parameter \<open>repr\<close>.
\<close>

fun py_str :: "(json \<Rightarrow> string) \<Rightarrow> json \<Rightarrow> string" where
  "py_str repr JNull = ''None''"
| "py_str repr (JBool b) = (if b then ''True'' else ''False'')"
| "py_str repr (JInt i) = str_int i"
| "py_str repr (JStr s) = s"
| "py_str repr x = repr x"

subsection \<open>Tables\<close>

text \<open>
  A table has two columns; the style of the first one and the rows are what the two
  formatters choose. \<open>add_row\<close> takes a cell that is a string, and raises for a list, a
  dictionary or a number.
\<close>

record table =
  field_style :: string
  rows :: "(string \<times> string) list"

text \<open>
  The cell of the description row,
  \<open>description[:limit] + "..." if len(description) > limit else description\<close>, given to
  \<open>add_row\<close>. A number has no length; a list or a dictionary has one, and then either
  the concatenation with a string or \<open>add_row\<close> raises.
\<close>

fun description_cell :: "nat \<Rightarrow> json \<Rightarrow> pyerr + string" where
  "description_cell limit (JStr s) =
     Inr (if length s > limit then take limit s @ ''...'' else s)"
| "description_cell limit x = Inl Uncaught"

text \<open>The first cell's prefix \<open>[dim]\[{index}][/dim]\<close>; the source escapes the bracket.\<close>

definition index_markup :: "nat \<Rightarrow> string" where
  "index_markup index = ''[dim]'' @ [CHR 0x5C] @ ''['' @ str_nat index @ ''][/dim]''"

subsection \<open>The package formatter\<close>

type_synonym cells = "(string \<times> string) list"

text \<open>The rows \<open>format_package_result_table\<close> adds under \<open>if programs:\<close>.\<close>

definition programs_rows :: "json \<Rightarrow> cells \<Rightarrow> pyerr + cells" where
  "programs_rows programs cells =
     (if truthy programs then
        andthen (py_slice MAX_PROGRAMS_DISPLAY programs) (\<lambda>shown.
        andthen (py_join '' '' shown) (\<lambda>programs_str.
        andthen (py_len programs) (\<lambda>n.
          Inr (cells @
            [(''Programs'',
              ''[green]'' @
              (if n > MAX_PROGRAMS_DISPLAY then
                 programs_str @ '' ... (+'' @ str_nat (n - MAX_PROGRAMS_DISPLAY) @ '' more)''
               else programs_str) @
              ''[/green]'')]))))
      else Inr cells)"

text \<open>The row both formatters add under \<open>if description:\<close>.\<close>

definition description_rows :: "nat \<Rightarrow> json \<Rightarrow> cells \<Rightarrow> pyerr + cells" where
  "description_rows limit description cells =
     (if truthy description then
        andthen (description_cell limit description) (\<lambda>desc.
          Inr (cells @ [(''Description'', desc)]))
      else Inr cells)"

definition link :: "(json \<Rightarrow> string) \<Rightarrow> json \<Rightarrow> string" where
  "link repr url = ''[link='' @ py_str repr url @ '']'' @ py_str repr url @ ''[/link]''"

text \<open>\<open>[m.get("name", m.get("email", "")) for m in maintainers[:3]]\<close>.\<close>

fun maint_names :: "json list \<Rightarrow> pyerr + json list" where
  "maint_names [] = Inr []"
| "maint_names (m # ms) =
     andthen (py_get m ''email'' (JStr [])) (\<lambda>email.
     andthen (py_get m ''name'' email) (\<lambda>name.
     andthen (maint_names ms) (\<lambda>names. Inr (name # names))))"

text \<open>The rows added under \<open>if details:\<close>; \<open>source\<close> is a dictionary there.\<close>

definition homepage_rows :: "(json \<Rightarrow> string) \<Rightarrow> json \<Rightarrow> cells \<Rightarrow> pyerr + cells" where
  "homepage_rows repr source cells =
     andthen (py_get source ''package_homepage'' JNull) (\<lambda>homepage.
       if truthy homepage then
         Inr (cells @
           [(''Homepage'',
             (case homepage of
                JArr urls \<Rightarrow> join '' '' (map (link repr) urls)
              | other \<Rightarrow> link repr homepage))])
       else Inr cells)"

definition license_rows :: "json \<Rightarrow> cells \<Rightarrow> pyerr + cells" where
  "license_rows source cells =
     andthen (py_get source ''package_license_set'' JNull) (\<lambda>license_name.
       if truthy license_name then
         andthen (py_slice 3 license_name) (\<lambda>shown.
         andthen (py_join '', '' shown) (\<lambda>licenses.
           Inr (cells @ [(''License'', ''[magenta]'' @ licenses @ ''[/magenta]'')])))
       else Inr cells)"

definition maintainers_rows :: "json \<Rightarrow> cells \<Rightarrow> pyerr + cells" where
  "maintainers_rows source cells =
     andthen (py_get source ''package_maintainers'' JNull) (\<lambda>maintainers.
       if truthy maintainers then
         andthen (py_slice 3 maintainers) (\<lambda>shown.
         andthen (py_iter shown) (\<lambda>ms.
         andthen (maint_names ms) (\<lambda>names.
         andthen (py_join '', '' (JArr names)) (\<lambda>maint_str.
           Inr (cells @ [(''Maintainers'', ''[cyan]'' @ maint_str @ ''[/cyan]'')])))))
       else Inr cells)"

definition format_package_result_table ::
  "(json \<Rightarrow> string) \<Rightarrow> json \<Rightarrow> nat \<Rightarrow> bool \<Rightarrow> pyerr + table" where
  "format_package_result_table repr source index details =
     andthen (py_get source ''package_attr_name'' (JStr ''unknown'')) (\<lambda>attr_name.
     andthen (py_get source ''package_pversion'' (JStr [])) (\<lambda>version.
     andthen (py_get source ''package_description'' (JStr [])) (\<lambda>description.
     andthen (py_get source ''package_programs'' (JArr [])) (\<lambda>programs.
     andthen (programs_rows programs
       [(''Package'',
         (if truthy version then
            index_markup index @ '' [bold cyan]'' @ py_str repr attr_name @
            ''[/bold cyan] [dim]@[/dim] [yellow]'' @ py_str repr version @ ''[/yellow]''
          else
            index_markup index @ '' [bold cyan]'' @ py_str repr attr_name @
            ''[/bold cyan]''))]) (\<lambda>cells.
     andthen (description_rows MAX_DESCRIPTION_LENGTH description cells) (\<lambda>cells.
     andthen
       (if details then
          andthen (homepage_rows repr source cells) (\<lambda>cells.
          andthen (license_rows source cells) (\<lambda>cells.
          maintainers_rows source cells))
        else Inr cells) (\<lambda>cells.
     Inr \<lparr> field_style = ''bold cyan'',
           rows = cells @
             [(''Install'', ''[dim]nix-env -iA nixpkgs.'' @ py_str repr attr_name @ ''[/dim]''),
              ([], ''[dim]nix profile install nixpkgs#'' @ py_str repr attr_name @
                   ''[/dim]'')] \<rparr>)))))))"

subsection \<open>The option formatter\<close>

definition format_option_result_table ::
  "(json \<Rightarrow> string) \<Rightarrow> json \<Rightarrow> nat \<Rightarrow> bool \<Rightarrow> pyerr + table" where
  "format_option_result_table repr source index details =
     andthen (py_get source ''option_name'' (JStr ''unknown'')) (\<lambda>option_name.
     andthen (py_get source ''option_type'' (JStr [])) (\<lambda>option_type.
     andthen (py_get source ''option_description'' (JStr [])) (\<lambda>description.
     andthen (py_get source ''option_default'' JNull) (\<lambda>default'.
     andthen (py_get source ''option_example'' JNull) (\<lambda>example.
     andthen (description_rows MAX_OPTION_DESCRIPTION_LENGTH description
       ([(''Option'',
          index_markup index @ '' [bold magenta]'' @ py_str repr option_name @
          ''[/bold magenta]'')] @
        (if truthy option_type then
           [(''Type'', ''[cyan]'' @ py_str repr option_type @ ''[/cyan]'')]
         else []))) (\<lambda>cells.
     Inr \<lparr> field_style = ''bold magenta'',
           rows =
             (if details then
                cells @
                (if truthy default' then
                   [(''Default'',
                     ''[yellow]'' @ take MAX_DEFAULT_LENGTH (py_str repr default') @
                     ''[/yellow]'')]
                 else []) @
                (if truthy example then
                   [(''Example'',
                     ''[green]'' @ take MAX_EXAMPLE_LENGTH (py_str repr example) @
                     ''[/green]'')]
                 else [])
              else cells) \<rparr>))))))"

subsection \<open>Rendering\<close>

text \<open>
  What \<open>console.print\<close> is given: a string with markup, a table, or nothing (an empty
  line).
\<close>

datatype item = Text string | Tbl table | Blank

text \<open>
  The console library reads a string, and every cell of a table, as markup, and the
  formatters put the fields of a hit into the cells as they are. \<open>console.print\<close> raises
  when the markup is refused (a closing tag that matches no open tag, as in a description
  \<open>see [/etc/foo]\<close>), and then prints nothing of the item. Which items the library
  prints is the parameter \<open>prints\<close> of the functions below. An empty line always prints,
  and so does the notice of \<open>print_results\<close>, a fixed text whose tags match.
\<close>

type_synonym console = "item \<Rightarrow> bool"

text \<open>
  The body of the loop of \<open>_render_results\<close> up to the table: the source of the hit and
  the formatter of the search type; \<open>None\<close> stands for \<open>continue\<close>.
\<close>

definition format_hit ::
  "(json \<Rightarrow> string) \<Rightarrow> string \<Rightarrow> bool \<Rightarrow> nat \<Rightarrow> json \<Rightarrow> pyerr + table option" where
  "format_hit repr search_type details i hit =
     andthen (py_get hit ''_source'' (JObj [])) (\<lambda>source.
       if search_type = ''packages'' \<or> search_type = ''flakes'' then
         map_sum id Some (format_package_result_table repr source i details)
       else if search_type = ''options'' then
         map_sum id Some (format_option_result_table repr source i details)
       else Inr None)"

text \<open>
  The loop of \<open>_render_results\<close> over \<open>enumerate(hits, 1)\<close>, from position \<open>i\<close> on, where
  \<open>n\<close> is \<open>len(hits)\<close>. The result is what has been printed and the exception that ended
  the loop, if one did: a formatter raises, or the console refuses the table.
\<close>

fun render_hits ::
  "(json \<Rightarrow> string) \<Rightarrow> console \<Rightarrow> string \<Rightarrow> bool \<Rightarrow> bool \<Rightarrow> nat \<Rightarrow> nat \<Rightarrow> json list
     \<Rightarrow> item list \<times> pyerr option" where
  "render_hits repr prints search_type details compact n i [] = ([], None)"
| "render_hits repr prints search_type details compact n i (hit # hits) =
     (case format_hit repr search_type details i hit of
        Inl e \<Rightarrow> ([], Some e)
      | Inr None \<Rightarrow> render_hits repr prints search_type details compact n (Suc i) hits
      | Inr (Some table) \<Rightarrow>
          if \<not> prints (Tbl table) then ([], Some Uncaught)
          else
            (case render_hits repr prints search_type details compact n (Suc i) hits of
               (printed, raised) \<Rightarrow>
                 (Tbl table # (if \<not> compact \<and> i < n then [Blank] else []) @ printed,
                  raised)))"

text \<open>
  The first line \<open>_render_results\<close> prints, between two newlines: the total the response
  reports and the number of hits shown.
\<close>

definition found_line :: "(json \<Rightarrow> string) \<Rightarrow> json \<Rightarrow> nat \<Rightarrow> string" where
  "found_line repr total_value shown =
     [CHR 0x0A] @ ''[bold green]Found '' @ py_str repr total_value @
     '' results[/bold green] [dim](showing '' @ str_nat shown @ '')[/dim]'' @ [CHR 0x0A]"

text \<open>
  \<open>_render_results\<close>: the first line, then the loop. The result is what has been printed
  and the exception that ended the call, if one did.
\<close>

definition render_results ::
  "(json \<Rightarrow> string) \<Rightarrow> console \<Rightarrow> json list \<Rightarrow> string \<Rightarrow> json \<Rightarrow> bool \<Rightarrow> bool
     \<Rightarrow> item list \<times> pyerr option" where
  "render_results repr prints hits search_type total_value details compact =
     (if \<not> prints (Text (found_line repr total_value (length hits))) then
        ([], Some Uncaught)
      else
        (case render_hits repr prints search_type details compact (length hits) 1 hits of
           (printed, raised) \<Rightarrow>
             (Text (found_line repr total_value (length hits)) # printed, raised)))"

subsection \<open>Printing\<close>

text \<open>
  What the program does to the outside, in order: it builds the client, posts a request,
  writes a line to the error stream, prints the response as indented JSON or hands that
  text to the pager, prints on a console bound to standard output, or hands the pager the
  text of a console that wrote to a buffer.
\<close>

datatype step =
    Construct client
  | HttpPost string json string string int
  | Stderr string
  | PrintJson json
  | PagerJson json
  | ConsolePrint item
  | PagerConsole "item list"

text \<open>
  The first three statements of \<open>print_results\<close> after the JSON branch:
  \<open>data.get("hits", {}).get("hits", [])\<close>, \<open>data.get("hits", {}).get("total", {})\<close> and
  \<open>total.get("value", 0) if isinstance(total, dict) else total\<close>.
\<close>

definition response_hits :: "json \<Rightarrow> pyerr + json" where
  "response_hits data = andthen (py_get data ''hits'' (JObj [])) (\<lambda>h. py_get h ''hits'' (JArr []))"

definition response_total :: "json \<Rightarrow> pyerr + json" where
  "response_total data =
     andthen (py_get data ''hits'' (JObj [])) (\<lambda>h. py_get h ''total'' (JObj []))"

definition total_value_of :: "json \<Rightarrow> pyerr + json" where
  "total_value_of tot = (case tot of JObj kvs \<Rightarrow> py_get tot ''value'' (JInt 0) | other \<Rightarrow> Inr tot)"

text \<open>
  \<open>print_results\<close>; \<open>isatty\<close> is what \<open>sys.stdout.isatty()\<close> answers. The result is
  the steps taken and the exception that ended the call, if one did. A value of \<open>hits\<close>
  that is true and no sequence makes \<open>reversed\<close> or \<open>len\<close> raise before anything is
  printed. When the pager is chosen, an exception while rendering leaves the buffer
  unused.
\<close>

definition print_results ::
  "(json \<Rightarrow> string) \<Rightarrow> console \<Rightarrow> bool \<Rightarrow> json \<Rightarrow> string \<Rightarrow> bool \<Rightarrow> bool \<Rightarrow> bool \<Rightarrow> bool \<Rightarrow> bool option
     \<Rightarrow> step list \<times> pyerr option" where
  "print_results repr prints isatty data search_type details compact json_output reverse use_pager =
     (if json_output then
        (if use_pager = Some True then ([PagerJson data], None)
         else ([PrintJson data], None))
      else
        (case response_hits data of
           Inl e \<Rightarrow> ([], Some e)
         | Inr hits \<Rightarrow>
        (case response_total data of
           Inl e \<Rightarrow> ([], Some e)
         | Inr tot \<Rightarrow>
        (case total_value_of tot of
           Inl e \<Rightarrow> ([], Some e)
         | Inr total_value \<Rightarrow>
             if \<not> truthy hits then
               ([ConsolePrint (Text ''[yellow]No results found.[/yellow]'')], None)
             else
               (case py_iter hits of
                  Inl e \<Rightarrow> ([], Some e)
                | Inr hs \<Rightarrow>
                    (let hits = (if reverse then rev hs else hs);
                         should_use_pager =
                           (case use_pager of
                              Some b \<Rightarrow> b
                            | None \<Rightarrow> length hits > PAGER_THRESHOLD)
                     in if should_use_pager \<and> isatty then
                          (case render_results repr prints hits search_type total_value details
                                  compact of
                             (printed, None) \<Rightarrow> ([PagerConsole printed], None)
                           | (printed, Some e) \<Rightarrow> ([], Some e))
                        else
                          (case render_results repr prints hits search_type total_value details
                                  compact of
                             (printed, raised) \<Rightarrow> (map ConsolePrint printed, raised))))))))"

section \<open>The command line (cli.py)\<close>

text \<open>\<open>NixOSSearchClient.search\<close>: the steps taken, and the response or the exit code.\<close>

definition search ::
  "network \<Rightarrow> client \<Rightarrow> string \<Rightarrow> string option \<Rightarrow> string option \<Rightarrow> string option
     \<Rightarrow> string option \<Rightarrow> string \<Rightarrow> string \<Rightarrow> int \<Rightarrow> int \<Rightarrow> step list \<times> (int + json)" where
  "search net self query name program version platform channel search_type size' from' =
     (let endpoint = search_endpoint self search_type channel;
          es_query = search_body query name program version platform search_type size' from';
          post = HttpPost endpoint es_query (username self) (password self) REQUEST_TIMEOUT
      in case send net self endpoint es_query of
           Response data \<Rightarrow> ([post], Inr data)
         | RequestException e \<Rightarrow>
             ([post, Stderr (''Error making request: '' @ e)], Inl 1)
         | JSONDecodeError e \<Rightarrow>
             ([post, Stderr (''Error parsing JSON response: '' @ e)], Inl 1))"

text \<open>
  How a run of \<open>main\<close> ends: it returns, it raises one of the two usage errors of the
  command-line library, \<open>search\<close> exits, or an exception nobody catches goes up.
\<close>

datatype outcome =
    Returned
  | UsageError string
  | BadParameter string string
  | SystemExit int
  | Raised pyerr

text \<open>
  The exit status of the process. The command-line library ends the process with status
  2 for a usage error (\<open>BadParameter\<close> is one), and the interpreter with status 1 for an
  exception that nobody catches.
\<close>

fun exit_code :: "outcome \<Rightarrow> int" where
  "exit_code Returned = 0"
| "exit_code (UsageError msg) = 2"
| "exit_code (BadParameter msg hint) = 2"
| "exit_code (SystemExit n) = n"
| "exit_code (Raised e) = 1"

fun is_usage_error :: "outcome \<Rightarrow> bool" where
  "is_usage_error (UsageError msg) = True"
| "is_usage_error (BadParameter msg hint) = True"
| "is_usage_error other = False"

text \<open>
  \<open>main\<close>, after the command-line library has parsed the arguments. \<open>any\<close> asks for the
  truth value of each of the four items.
\<close>

definition main ::
  "network \<Rightarrow> (json \<Rightarrow> string) \<Rightarrow> console \<Rightarrow> bool \<Rightarrow> string \<Rightarrow> string option \<Rightarrow> string option
     \<Rightarrow> string option \<Rightarrow> string option \<Rightarrow> string \<Rightarrow> string \<Rightarrow> int \<Rightarrow> int \<Rightarrow> bool \<Rightarrow> bool
     \<Rightarrow> bool \<Rightarrow> bool \<Rightarrow> bool option \<Rightarrow> string \<Rightarrow> step list \<times> outcome" where
  "main net repr prints isatty query name program version platform channel search_type size' from'
        details compact reverse json_output pager url =
     (if \<not> (query \<noteq> [] \<or> truthy_opt name \<or> truthy_opt program \<or> truthy_opt version) then
        ([], UsageError
           ''At least one of: QUERY, --name, --program, or --version must be specified'')
      else if size' \<le> 0 then
        ([], BadParameter ''size must be greater than 0'' ''--size'')
      else if from' < 0 then
        ([], BadParameter ''from must be non-negative'' ''--from'')
      else if from' + size' > MAX_RESULTS then
        ([], BadParameter
           (''from + size cannot exceed '' @ str_int MAX_RESULTS @ '' (Elasticsearch limit)'')
           ''--from/--size'')
      else
        (let client = NixOSSearchClient url None None in
         case search net client query name program version platform channel search_type
                size' from' of
           (sent, Inl status) \<Rightarrow> (Construct client # sent, SystemExit status)
         | (sent, Inr data) \<Rightarrow>
             (case print_results repr prints isatty data search_type details compact json_output
                     reverse pager of
                (shown, None) \<Rightarrow> (Construct client # sent @ shown, Returned)
              | (shown, Some e) \<Rightarrow> (Construct client # sent @ shown, Raised e))))"

section \<open>Observations on a run\<close>

text \<open>The value under a key of a dictionary of the request.\<close>

definition field :: "string \<Rightarrow> json \<Rightarrow> json option" where
  "field k j = (case j of JObj kvs \<Rightarrow> map_of kvs k | other \<Rightarrow> None)"

text \<open>The clauses under \<open>query.bool.must\<close> of a request body.\<close>

definition must_of :: "json \<Rightarrow> json list" where
  "must_of body =
     (case Option.bind (Option.bind (field ''query'' body) (field ''bool'')) (field ''must'') of
        Some (JArr clauses) \<Rightarrow> clauses
      | other \<Rightarrow> [])"

definition is_wildcard :: "json \<Rightarrow> bool" where
  "is_wildcard clause = (field ''wildcard'' clause \<noteq> None)"

text \<open>The wildcard clause on a field for a value, and the values a filter provides.\<close>

definition wildcard_clause :: "string \<Rightarrow> string \<Rightarrow> json" where
  "wildcard_clause fld v = JObj [(''wildcard'', JObj [(fld, JStr (''*'' @ v @ ''*''))])]"

fun provided :: "string option \<Rightarrow> string list" where
  "provided None = []"
| "provided (Some s) = (if s = [] then [] else [s])"

text \<open>Whether a step hands text to the pager, and what a run puts on display.\<close>

fun is_pager :: "step \<Rightarrow> bool" where
  "is_pager (PagerJson data) = True"
| "is_pager (PagerConsole printed) = True"
| "is_pager other = False"

definition paged :: "step list \<Rightarrow> bool" where
  "paged steps = list_ex is_pager steps"

fun displayed :: "step list \<Rightarrow> item list" where
  "displayed [] = []"
| "displayed (ConsolePrint i # steps) = i # displayed steps"
| "displayed (PagerConsole printed # steps) = printed @ displayed steps"
| "displayed (other # steps) = displayed steps"

text \<open>The tables among the items on display, in order.\<close>

fun tables_of :: "item list \<Rightarrow> table list" where
  "tables_of [] = []"
| "tables_of (Tbl t # items) = t # tables_of items"
| "tables_of (other # items) = tables_of items"

section \<open>Properties of the query builder and of the request\<close>

lemma str_int_44: "str_int 44 = ''44''"
  by code_simp

lemma str_schema: "str_int SCHEMA_VERSION = ''44''"
  by (simp add: SCHEMA_VERSION_def str_int_44)

lemma must_of_body:
  "must_of (JObj [(''query'', JObj [(''bool'', JObj [(''must'', JArr cs)])])]) = cs"
  by (simp add: must_of_def field_def)

lemma append_wildcard_provided:
  "append_wildcard f t mc = mc @ map (wildcard_clause f) (provided t)"
  by (cases t) (simp_all add: append_wildcard_def wildcard_clause_def)

lemma is_wildcard_clause [simp]: "is_wildcard (wildcard_clause f v)"
  by (simp add: is_wildcard_def wildcard_clause_def field_def)

lemma not_wildcard_dis_max [simp]: "\<not> is_wildcard (JObj [(''dis_max'', x)])"
  by (simp add: is_wildcard_def field_def)

lemma not_wildcard_term [simp]: "\<not> is_wildcard (JObj [(''term'', x)])"
  by (simp add: is_wildcard_def field_def)

lemma not_wildcard_match_all [simp]: "\<not> is_wildcard (JObj [(''match_all'', x)])"
  by (simp add: is_wildcard_def field_def)

lemma filter_wildcard_map [simp]:
  "filter is_wildcard (map (wildcard_clause f) vs) = map (wildcard_clause f) vs"
  by (induction vs) simp_all

text \<open>
  With a free-text query and no filter, a search for packages asks for the eleven weighted
  package fields, and a search for options for the two option fields.
\<close>

lemma build_query_packages_fields:
  "q \<noteq> [] \<Longrightarrow>
   build_query q None None None None ''packages'' =
     JObj [(''query'', JObj [(''bool'', JObj [(''must'', JArr
       [JObj [(''dis_max'', JObj [(''queries'', JArr
          [JObj [(''multi_match'', JObj
             [(''query'', JStr q),
              (''type'', JStr ''cross_fields''),
              (''fields'',
               JArr [JStr ''package_attr_name^9'',
                     JStr ''package_attr_name.*^5.3999999999999995'',
                     JStr ''package_programs^9'',
                     JStr ''package_programs.*^5.3999999999999995'',
                     JStr ''package_pname^6'',
                     JStr ''package_pname.*^3.5999999999999996'',
                     JStr ''package_description^1.3'',
                     JStr ''package_description.*^0.78'',
                     JStr ''package_longDescription^1'',
                     JStr ''package_longDescription.*^0.6'',
                     JStr ''flake_name^0.5''])])]])])]])])])]"
  by (simp add: build_query_def append_wildcard_def)

lemma build_query_options_fields:
  "q \<noteq> [] \<Longrightarrow>
   build_query q None None None None ''options'' =
     JObj [(''query'', JObj [(''bool'', JObj [(''must'', JArr
       [JObj [(''dis_max'', JObj [(''queries'', JArr
          [JObj [(''multi_match'', JObj
             [(''query'', JStr q),
              (''type'', JStr ''cross_fields''),
              (''fields'',
               JArr [JStr ''option_name^2'', JStr ''option_description''])])]])])]])])])]"
  by (simp add: build_query_def append_wildcard_def)

text \<open>
  Claim C1, at a search for flakes: the query built for the free text \<open>wayland\<close> and the
  search type \<open>flakes\<close> has the two option fields in its multi-match clause, not the
  weighted package fields. The builder tests the search type against \<open>packages\<close> only.
\<close>

theorem build_query_flakes_fields:
  "build_query ''wayland'' None None None None ''flakes'' =
     JObj [(''query'', JObj [(''bool'', JObj [(''must'', JArr
       [JObj [(''dis_max'', JObj [(''queries'', JArr
          [JObj [(''multi_match'', JObj
             [(''query'', JStr ''wayland''),
              (''type'', JStr ''cross_fields''),
              (''fields'',
               JArr [JStr ''option_name^2'', JStr ''option_description''])])]])])]])])])]"
  by (simp add: build_query_def append_wildcard_def)

text \<open>The sort of a request for packages and of a request for options.\<close>

lemma search_body_packages_sort:
  "field ''sort'' (search_body q n p v pl ''packages'' sz fr) =
     Some (JArr [JObj [(''_score'', JStr ''desc'')],
                 JObj [(''package_attr_name'', JStr ''desc'')]])"
  by (simp add: search_body_def build_query_def field_def Let_def)

lemma search_body_options_sort:
  "field ''sort'' (search_body q n p v pl ''options'' sz fr) =
     Some (JArr [JObj [(''_score'', JStr ''desc'')]])"
  by (simp add: search_body_def build_query_def field_def Let_def)

text \<open>
  Claim C2, at a search for flakes: the body of every request for flakes sorts by the
  score alone; the attribute name is no second key. The sort, too, tests the search type
  against \<open>packages\<close> only.
\<close>

theorem search_body_flakes_sort:
  "field ''sort'' (search_body q n p v pl ''flakes'' sz fr) =
     Some (JArr [JObj [(''_score'', JStr ''desc'')]])"
  by (simp add: search_body_def build_query_def field_def Let_def)

text \<open>
  Claim C3: the index follows the naming scheme with schema version 44. For flakes it is
  \<open>latest-44-nixos-flakes\<close> whatever the channel; for options it is
  \<open>latest-44-nixos-unstable-options\<close> on the unstable channel and
  \<open>latest-44-nixos-<channel>-options\<close> on every channel; for packages it is
  \<open>latest-44-nixos-unstable\<close> on the unstable channel and \<open>latest-44-nixos-<channel>\<close>
  on every channel.
\<close>

theorem search_index_scheme:
  "search_index ''flakes'' ch = ''latest-44-nixos-flakes'' \<and>
   search_index ''options'' ''unstable'' = ''latest-44-nixos-unstable-options'' \<and>
   search_index ''options'' ch = ''latest-44-nixos-'' @ ch @ ''-options'' \<and>
   search_index ''packages'' ''unstable'' = ''latest-44-nixos-unstable'' \<and>
   search_index ''packages'' ch = ''latest-44-nixos-'' @ ch"
  by (simp add: search_index_def str_schema)

theorem search_index_scheme_witness:
  "search_index ''flakes'' ''24.05'' = ''latest-44-nixos-flakes'' \<and>
   search_index ''options'' ''24.05'' = ''latest-44-nixos-24.05-options'' \<and>
   search_index ''packages'' ''24.05'' = ''latest-44-nixos-24.05''"
  using search_index_scheme [of "''24.05''"] by simp

text \<open>
  Claim C4: the wildcard clauses of the built query are, in this order, one clause on
  \<open>package_attr_name\<close> when a name is provided, one on \<open>package_programs\<close> when a
  program is provided and one on \<open>package_pversion\<close> when a version is provided, each
  with the value between two asterisks and otherwise unchanged; a filter that is \<open>None\<close>
  or empty adds none.
\<close>

theorem build_query_wildcards:
  "filter is_wildcard (must_of (build_query q n p v pl st)) =
     map (wildcard_clause ''package_attr_name'') (provided n) @
     map (wildcard_clause ''package_programs'') (provided p) @
     map (wildcard_clause ''package_pversion'') (provided v)"
  unfolding build_query_def Let_def must_of_body append_wildcard_provided
  by (cases pl) (simp_all split: if_splits)

theorem build_query_wildcards_witness:
  "filter is_wildcard
     (must_of (build_query ''emacs'' (Some ''emacsPackages.*'') None (Some []) None
        ''packages'')) =
     [JObj [(''wildcard'', JObj [(''package_attr_name'', JStr ''*emacsPackages.**'')])]]"
  using build_query_wildcards
    [of "''emacs''" "Some ''emacsPackages.*''" None "Some []" None "''packages''"]
  by (simp add: wildcard_clause_def)

section \<open>Properties of the command line\<close>

lemma search_response:
  assumes "send net self (search_endpoint self st ch) (search_body q n p v pl st sz fr) =
             Response data"
  shows "search net self q n p v pl ch st sz fr =
     ([HttpPost (search_endpoint self st ch) (search_body q n p v pl st sz fr)
         (username self) (password self) REQUEST_TIMEOUT], Inr data)"
  using assms by (simp add: search_def Let_def)

lemma main_checks_pass:
  assumes "q \<noteq> [] \<or> truthy_opt n \<or> truthy_opt p \<or> truthy_opt v"
    and "0 < sz" and "0 \<le> fr" and "fr + sz \<le> 10000"
  shows "main net repr prints tty q n p v pl ch st sz fr d c rv jo pg url =
     (let client = NixOSSearchClient url None None in
         case search net client q n p v pl ch st sz fr of
           (sent, Inl status) \<Rightarrow> (Construct client # sent, SystemExit status)
         | (sent, Inr data) \<Rightarrow>
             (case print_results repr prints tty data st d c jo rv pg of
                (shown, None) \<Rightarrow> (Construct client # sent @ shown, Returned)
              | (shown, Some e) \<Rightarrow> (Construct client # sent @ shown, Raised e)))"
proof -
  have "\<not> sz \<le> 0" "\<not> fr < 0" "\<not> fr + sz > MAX_RESULTS"
    using assms by (simp_all add: MAX_RESULTS_def)
  then show ?thesis unfolding main_def using assms(1) by simp
qed

lemma main_checks_fail:
  assumes "\<not> (q \<noteq> [] \<or> truthy_opt n \<or> truthy_opt p \<or> truthy_opt v) \<or> sz \<le> 0 \<or> fr < 0 \<or>
           10000 < fr + sz"
  shows "fst (main net repr prints tty q n p v pl ch st sz fr d c rv jo pg url) = [] \<and>
         is_usage_error (snd (main net repr prints tty q n p v pl ch st sz fr d c rv jo pg url)) \<and>
         exit_code (snd (main net repr prints tty q n p v pl ch st sz fr d c rv jo pg url)) \<noteq> 0"
  using assms unfolding main_def MAX_RESULTS_def by auto

lemma search_steps:
  "\<exists>rest r. search net self q n p v pl ch st sz fr =
     (HttpPost (search_endpoint self st ch) (search_body q n p v pl st sz fr)
        (username self) (password self) REQUEST_TIMEOUT # rest, r)"
  by (cases "send net self (search_endpoint self st ch) (search_body q n p v pl st sz fr)")
     (simp_all add: search_def Let_def)

lemma main_accepts:
  assumes "q \<noteq> [] \<or> truthy_opt n \<or> truthy_opt p \<or> truthy_opt v"
    and "0 < sz" and "0 \<le> fr" and "fr + sz \<le> 10000"
  shows "\<not> is_usage_error (snd (main net repr prints tty q n p v pl ch st sz fr d c rv jo pg url)) \<and>
         (\<exists>rest. fst (main net repr prints tty q n p v pl ch st sz fr d c rv jo pg url) =
            Construct (NixOSSearchClient url None None) #
            HttpPost (search_endpoint (NixOSSearchClient url None None) st ch)
              (search_body q n p v pl st sz fr)
              (username (NixOSSearchClient url None None))
              (password (NixOSSearchClient url None None)) REQUEST_TIMEOUT # rest)"
proof -
  obtain rest r where s: "search net (NixOSSearchClient url None None) q n p v pl ch st sz fr =
     (HttpPost (search_endpoint (NixOSSearchClient url None None) st ch)
        (search_body q n p v pl st sz fr)
        (username (NixOSSearchClient url None None))
        (password (NixOSSearchClient url None None)) REQUEST_TIMEOUT # rest, r)"
    using search_steps by blast
  show ?thesis
  proof (cases r)
    case (Inl status)
    then show ?thesis unfolding main_checks_pass [OF assms] Let_def s by simp
  next
    case (Inr data)
    obtain shown raised where
      p: "print_results repr prints tty data st d c jo rv pg = (shown, raised)"
      by (cases "print_results repr prints tty data st d c jo rv pg") blast
    show ?thesis unfolding main_checks_pass [OF assms] Let_def s
      using Inr p by (cases raised) simp_all
  qed
qed

text \<open>
  Claim C5: when none of the query, the name, the program and the version is given (each
  is \<open>None\<close> or empty), or the size is not positive, or the offset is negative, or offset
  plus size exceeds 10000, \<open>main\<close> raises a usage error, which ends the process with a
  status other than 0, and it has taken no step: no client is built and no request is
  posted. When all four checks pass, the run does not end in a usage error, and it builds
  the client and posts the request.
\<close>

theorem main_validation:
  "(\<not> (q \<noteq> [] \<or> truthy_opt n \<or> truthy_opt p \<or> truthy_opt v) \<or> sz \<le> 0 \<or> fr < 0 \<or>
    10000 < fr + sz \<longrightarrow>
      fst (main net repr prints tty q n p v pl ch st sz fr d c rv jo pg url) = [] \<and>
      is_usage_error (snd (main net repr prints tty q n p v pl ch st sz fr d c rv jo pg url)) \<and>
      exit_code (snd (main net repr prints tty q n p v pl ch st sz fr d c rv jo pg url)) \<noteq> 0) \<and>
   ((q \<noteq> [] \<or> truthy_opt n \<or> truthy_opt p \<or> truthy_opt v) \<and> 0 < sz \<and> 0 \<le> fr \<and>
    fr + sz \<le> 10000 \<longrightarrow>
      \<not> is_usage_error (snd (main net repr prints tty q n p v pl ch st sz fr d c rv jo pg url)) \<and>
      (\<exists>rest. fst (main net repr prints tty q n p v pl ch st sz fr d c rv jo pg url) =
         Construct (NixOSSearchClient url None None) #
         HttpPost (search_endpoint (NixOSSearchClient url None None) st ch)
           (search_body q n p v pl st sz fr)
           (username (NixOSSearchClient url None None))
           (password (NixOSSearchClient url None None)) REQUEST_TIMEOUT # rest))"
  using main_checks_fail [of q n p v sz fr net repr prints tty pl ch st d c rv jo pg url]
    main_accepts [of q n p v sz fr net repr prints tty pl ch st d c rv jo pg url]
  by blast

theorem main_validation_witness:
  "fst (main (\<lambda>e b u p t. Response (JObj [])) (\<lambda>x. []) (\<lambda>i. True) False ''python'' None None None None
          ''unstable'' ''packages'' 9000 2000 False False False False None
          ''https://search.nixos.org'') = [] \<and>
   is_usage_error
     (snd (main (\<lambda>e b u p t. Response (JObj [])) (\<lambda>x. []) (\<lambda>i. True) False ''python'' None None None None
          ''unstable'' ''packages'' 9000 2000 False False False False None
          ''https://search.nixos.org'')) \<and>
   \<not> is_usage_error
     (snd (main (\<lambda>e b u p t. Response (JObj [])) (\<lambda>x. []) (\<lambda>i. True) False ''python'' None None None None
          ''unstable'' ''packages'' 20 0 False False False False None
          ''https://search.nixos.org''))"
  using
    main_validation [where q = "''python''" and n = None and p = None and v = None and sz = 9000
          and fr = 2000 and net = "\<lambda>e b u p t. Response (JObj [])" and repr = "\<lambda>x. []" and prints = "\<lambda>i. True"
          and tty = False and pl = None and ch = "''unstable''" and st = "''packages''"
          and d = False and c = False and rv = False and jo = False and pg = None
          and url = "''https://search.nixos.org''"]
    main_validation [where q = "''python''" and n = None and p = None and v = None and sz = 20
          and fr = 0 and net = "\<lambda>e b u p t. Response (JObj [])" and repr = "\<lambda>x. []" and prints = "\<lambda>i. True"
          and tty = False and pl = None and ch = "''unstable''" and st = "''packages''"
          and d = False and c = False and rv = False and jo = False and pg = None
          and url = "''https://search.nixos.org''"]
  by simp

section \<open>Properties of the renderer\<close>

lemma paged_Nil [simp]: "\<not> paged []"
  by (simp add: paged_def)

lemma paged_Cons [simp]: "paged (s # steps) = (is_pager s \<or> paged steps)"
  by (simp add: paged_def)

lemma paged_console [simp]: "\<not> paged (map ConsolePrint printed)"
  by (induction printed) simp_all

lemma print_results_iter:
  assumes "response_hits data = Inr hits" and "truthy hits" and "py_iter hits = Inr hs"
    and "response_total data = Inr t" and "total_value_of t = Inr tv"
  shows "print_results repr prints tty data st d c False rv up =
    (if (case up of Some b \<Rightarrow> b | None \<Rightarrow> length hs > PAGER_THRESHOLD) \<and> tty then
       (case render_results repr prints (if rv then rev hs else hs) st tv d c of
          (printed, None) \<Rightarrow> ([PagerConsole printed], None)
        | (printed, Some e) \<Rightarrow> ([], Some e))
     else
       (case render_results repr prints (if rv then rev hs else hs) st tv d c of
          (printed, raised) \<Rightarrow> (map ConsolePrint printed, raised)))"
  using assms by (cases up; cases rv) (simp_all add: print_results_def Let_def)

lemma print_results_not_tty:
  "\<not> paged (fst (print_results repr prints False data st d c False rv up))"
proof (cases "response_hits data")
  case (Inl e)
  then show ?thesis by (simp add: print_results_def)
next
  case (Inr hits)
  note hits = this
  show ?thesis
  proof (cases "response_total data")
    case (Inl e)
    then show ?thesis using hits by (simp add: print_results_def)
  next
    case (Inr t)
    note t = this
    show ?thesis
    proof (cases "total_value_of t")
      case (Inl e)
      then show ?thesis using hits t by (simp add: print_results_def)
    next
      case (Inr tv)
      note tv = this
      show ?thesis
      proof (cases "truthy hits")
        case False
        then show ?thesis using hits t tv by (simp add: print_results_def)
      next
        case True
        note tr = this
        show ?thesis
        proof (cases "py_iter hits")
          case (Inl e)
          then show ?thesis using hits t tv tr by (simp add: print_results_def)
        next
          case (Inr hs)
          show ?thesis
            by (cases "render_results repr prints (if rv then rev hs else hs) st tv d c")
               (simp add: print_results_iter [OF hits tr Inr t tv])
        qed
      qed
    qed
  qed
qed


lemma paged_imp_tty:
  "paged (fst (print_results repr prints tty data st d c False rv up)) \<Longrightarrow> tty"
  using print_results_not_tty [of repr prints data st d c rv up] by (cases tty) simp_all

lemma response_total_defined:
  "response_hits data = Inr x \<Longrightarrow> \<exists>t. response_total data = Inr t"
proof (cases data)
  case (JObj kvs)
  assume h: "response_hits data = Inr x"
  show ?thesis
  proof (cases "case map_of kvs ''hits'' of Some v \<Rightarrow> v | None \<Rightarrow> JObj []")
    case (JObj kvs')
    then show ?thesis using \<open>data = JObj kvs\<close>
      by (simp add: response_total_def andthen_def)
  qed (use h \<open>data = JObj kvs\<close> in \<open>simp_all add: response_hits_def andthen_def\<close>)
qed (simp_all add: response_hits_def andthen_def)

lemma total_value_of_defined: "\<exists>tv. total_value_of t = Inr tv"
  by (cases t) (simp_all add: total_value_of_def)

lemma displayed_console [simp]: "displayed (map ConsolePrint printed) = printed"
  by (induction printed) simp_all


lemma print_results_hits:
  assumes "response_hits data = Inr (JArr hs)" and "hs \<noteq> []"
    and "response_total data = Inr t" and "total_value_of t = Inr tv"
  shows "print_results repr prints tty data st d c False rv up =
    (if (case up of Some b \<Rightarrow> b | None \<Rightarrow> length hs > PAGER_THRESHOLD) \<and> tty then
       (case render_results repr prints (if rv then rev hs else hs) st tv d c of
          (printed, None) \<Rightarrow> ([PagerConsole printed], None)
        | (printed, Some e) \<Rightarrow> ([], Some e))
     else
       (case render_results repr prints (if rv then rev hs else hs) st tv d c of
          (printed, raised) \<Rightarrow> (map ConsolePrint printed, raised)))"
  using print_results_iter [OF assms(1) _ _ assms(3) assms(4), of hs] assms(2) by simp

lemma print_results_empty:
  assumes "response_hits data = Inr (JArr [])"
  shows "print_results repr prints tty data st d c False rv up =
     ([ConsolePrint (Text ''[yellow]No results found.[/yellow]'')], None)"
proof -
  obtain t where t: "response_total data = Inr t"
    using response_total_defined [OF assms] by blast
  obtain tv where tv: "total_value_of t = Inr tv"
    using total_value_of_defined by blast
  show ?thesis using assms t tv by (simp add: print_results_def)
qed

lemma tables_of_append [simp]: "tables_of (xs @ ys) = tables_of xs @ tables_of ys"
  by (induction xs rule: tables_of.induct) simp_all









text \<open>
  Claim C7: for a response whose hits are the empty list, printing in table mode prints
  the notice that nothing was found and does nothing else: no table, no pager, no
  exception. A run of \<open>main\<close> that passes the checks and receives such a response takes
  three steps (client, request, notice), returns, and the exit status is 0.
\<close>

theorem no_results_notice:
  assumes "response_hits data = Inr (JArr [])"
  shows "print_results repr prints tty data st d c False rv up =
           ([ConsolePrint (Text ''[yellow]No results found.[/yellow]'')], None) \<and>
         ((q \<noteq> [] \<or> truthy_opt n \<or> truthy_opt p \<or> truthy_opt v) \<and> 0 < sz \<and> 0 \<le> fr \<and>
          fr + sz \<le> 10000 \<and>
          send net (NixOSSearchClient url None None)
            (search_endpoint (NixOSSearchClient url None None) st ch)
            (search_body q n p v pl st sz fr) = Response data \<longrightarrow>
          main net repr prints tty q n p v pl ch st sz fr d c rv False up url =
            ([Construct (NixOSSearchClient url None None),
              HttpPost (search_endpoint (NixOSSearchClient url None None) st ch)
                (search_body q n p v pl st sz fr)
                (username (NixOSSearchClient url None None))
                (password (NixOSSearchClient url None None)) REQUEST_TIMEOUT,
              ConsolePrint (Text ''[yellow]No results found.[/yellow]'')],
             Returned) \<and>
          exit_code (snd (main net repr prints tty q n p v pl ch st sz fr d c rv False up url)) = 0)"
proof -
  note e = print_results_empty [OF assms]
  have "main net repr prints tty q n p v pl ch st sz fr d c rv False up url =
            ([Construct (NixOSSearchClient url None None),
              HttpPost (search_endpoint (NixOSSearchClient url None None) st ch)
                (search_body q n p v pl st sz fr)
                (username (NixOSSearchClient url None None))
                (password (NixOSSearchClient url None None)) REQUEST_TIMEOUT,
              ConsolePrint (Text ''[yellow]No results found.[/yellow]'')],
             Returned)"
    if v: "q \<noteq> [] \<or> truthy_opt n \<or> truthy_opt p \<or> truthy_opt v" "0 < sz" "0 \<le> fr"
      "fr + sz \<le> 10000"
    and s: "send net (NixOSSearchClient url None None)
            (search_endpoint (NixOSSearchClient url None None) st ch)
            (search_body q n p v pl st sz fr) = Response data"
    unfolding main_checks_pass [OF v] Let_def search_response [OF s] by (simp add: e)
  then show ?thesis using e by simp
qed

theorem no_results_notice_witness:
  "print_results (\<lambda>x. []) (\<lambda>i. True) True
     (JObj [(''hits'', JObj [(''total'', JObj [(''value'', JInt 0)]), (''hits'', JArr [])])])
     ''packages'' False False False False None =
     ([ConsolePrint (Text ''[yellow]No results found.[/yellow]'')], None) \<and>
   exit_code (snd (main
     (\<lambda>e b u p t. Response
        (JObj [(''hits'', JObj [(''total'', JObj [(''value'', JInt 0)]), (''hits'', JArr [])])]))
     (\<lambda>x. []) (\<lambda>i. True) True ''zzzz'' None None None None ''unstable'' ''packages'' 20 0 False False
     False False None ''https://search.nixos.org'')) = 0"
proof -
  let ?d = "JObj [(''hits'', JObj [(''total'', JObj [(''value'', JInt 0)]), (''hits'', JArr [])])]"
  have h: "response_hits ?d = Inr (JArr [])"
    by (simp add: response_hits_def andthen_def)
  note th = no_results_notice [OF h, where repr = "\<lambda>x. []" and prints = "\<lambda>i. True" and tty = True and st = "''packages''"
      and d = False and c = False and rv = False and up = None and q = "''zzzz''"
      and n = None and p = None and v = None and pl = None and sz = 20 and fr = 0
      and net = "\<lambda>e b u p t. Response ?d" and url = "''https://search.nixos.org''"
      and ch = "''unstable''"]
  then show ?thesis by (simp add: send_def)
qed

lemma eleven_hits_render: "snd (print_results (\<lambda>x. []) (\<lambda>i. True) True
            (JObj [(''hits'', JObj [(''total'', JObj [(''value'', JInt 11)]),
               (''hits'', JArr (replicate 11 (JObj [])))])])
            ''packages'' False False False False None) = None"
  by code_simp

lemma ten_hits_and_null_source:
  "print_results (\<lambda>x. []) (\<lambda>i. True) True
     (JObj [(''hits'', JObj [(''total'', JObj [(''value'', JInt 11)]),
        (''hits'', JArr (replicate 10 (JObj []) @ [JObj [(''_source'', JNull)]]))])])
     ''packages'' False False False False None = ([], Some Uncaught)"
  by code_simp

text \<open>
  Eleven well-typed option hits on a terminal, pager mode unset, with a console that
  refuses the cell \<open>see [/etc/foo]\<close>: printing the first table into the buffer raises, and
  the pager is not called.
\<close>

lemma refused_markup_not_paged:
  "print_results (\<lambda>x. [])
     (\<lambda>i. case i of
             Tbl t \<Rightarrow> list_all (\<lambda>cell. snd cell \<noteq> ''see [/etc/foo]'') (rows t)
           | other \<Rightarrow> True)
     True
     (JObj [(''hits'', JObj [(''total'', JObj [(''value'', JInt 11)]),
        (''hits'', JArr (replicate 11
           (JObj [(''_source'', JObj [(''option_name'', JStr ''a.b''),
              (''option_description'', JStr ''see [/etc/foo]'')])])))])])
     ''options'' False False False False None = ([], Some Uncaught)"
  by code_simp

text \<open>
  Claim C8 as it is stated, that on a terminal with the pager mode unset the pager is used
  exactly when there are more than 10 hits, fails: for ten hits without a source and an
  eleventh hit whose source is \<open>None\<close>, the formatter raises while the hits are rendered
  into the buffer, and the call ends without a pager step although there are 11 hits.
\<close>

theorem auto_pager_gate_counterexample:
  "response_hits
     (JObj [(''hits'', JObj [(''total'', JObj [(''value'', JInt 11)]),
        (''hits'', JArr (replicate 10 (JObj []) @ [JObj [(''_source'', JNull)]]))])]) =
     Inr (JArr (replicate 10 (JObj []) @ [JObj [(''_source'', JNull)]])) \<and>
   10 < length (replicate 10 (JObj []) @ [JObj [(''_source'', JNull)]]) \<and>
   \<not> paged (fst (print_results (\<lambda>x. []) (\<lambda>i. True) True
     (JObj [(''hits'', JObj [(''total'', JObj [(''value'', JInt 11)]),
        (''hits'', JArr (replicate 10 (JObj []) @ [JObj [(''_source'', JNull)]]))])])
     ''packages'' False False False False None))"
  by (simp add: ten_hits_and_null_source response_hits_def andthen_def)

text \<open>
  Claim C8, amended: in table mode with the pager mode unset, nothing goes to the pager
  when standard output is no terminal, whatever the response. When it is a terminal and
  the hits are a list, the pager is used exactly when there are more than 10 hits and the
  call ends without an exception: an exception raised while a hit is formatted or printed
  into the buffer goes up before the pager is called.
\<close>

theorem auto_pager_gate:
  "\<not> paged (fst (print_results repr prints False data st d c False rv None)) \<and>
   (response_hits data = Inr (JArr hs) \<longrightarrow>
      paged (fst (print_results repr prints True data st d c False rv None)) =
        (10 < length hs \<and>
         snd (print_results repr prints True data st d c False rv None) = None))"
proof -
  have 2: "paged (fst (print_results repr prints True data st d c False rv None)) =
        (10 < length hs \<and>
         snd (print_results repr prints True data st d c False rv None) = None)"
    if h: "response_hits data = Inr (JArr hs)"
  proof (cases "hs = []")
    case True
    then show ?thesis using print_results_empty [of data repr prints True st d c rv None] h
      by simp
  next
    case False
    obtain t where t: "response_total data = Inr t"
      using response_total_defined [OF h] by blast
    obtain tv where tv: "total_value_of t = Inr tv"
      using total_value_of_defined by blast
    obtain printed raised where
      r: "render_results repr prints (if rv then rev hs else hs) st tv d c = (printed, raised)"
      by (cases "render_results repr prints (if rv then rev hs else hs) st tv d c") blast
    show ?thesis
      by (cases raised)
         (simp_all add: print_results_hits [OF h False t tv] r PAGER_THRESHOLD_def)
  qed
  from print_results_not_tty [of repr prints data st d c rv None] 2 show ?thesis by blast
qed

theorem auto_pager_gate_witness:
  "\<not> paged (fst (print_results (\<lambda>x. []) (\<lambda>i. True) False
      (JObj [(''hits'', JObj [(''total'', JObj [(''value'', JInt 11)]),
         (''hits'', JArr (replicate 11 (JObj [])))])])
      ''packages'' False False False False None)) \<and>
   paged (fst (print_results (\<lambda>x. []) (\<lambda>i. True) True
      (JObj [(''hits'', JObj [(''total'', JObj [(''value'', JInt 11)]),
         (''hits'', JArr (replicate 11 (JObj [])))])])
      ''packages'' False False False False None)) \<and>
   \<not> paged (fst (print_results (\<lambda>x. []) (\<lambda>i. True) True
      (JObj [(''hits'', JObj [(''total'', JObj [(''value'', JInt 10)]),
         (''hits'', JArr (replicate 10 (JObj [])))])])
      ''packages'' False False False False None))"
proof -
  let ?d = "JObj [(''hits'', JObj [(''total'', JObj [(''value'', JInt 11)]),
         (''hits'', JArr (replicate 11 (JObj [])))])]"
  let ?e = "JObj [(''hits'', JObj [(''total'', JObj [(''value'', JInt 10)]),
         (''hits'', JArr (replicate 10 (JObj [])))])]"
  have h: "response_hits ?d = Inr (JArr (replicate 11 (JObj [])))"
    by (simp add: response_hits_def andthen_def)
  have g: "response_hits ?e = Inr (JArr (replicate 10 (JObj [])))"
    by (simp add: response_hits_def andthen_def)
  note a = auto_pager_gate [where data = ?d and hs = "replicate 11 (JObj [])" and repr = "\<lambda>x. []" and prints = "\<lambda>i. True"
      and st = "''packages''" and d = False and c = False and rv = False]
  note b = auto_pager_gate [where data = ?e and hs = "replicate 10 (JObj [])" and repr = "\<lambda>x. []" and prints = "\<lambda>i. True"
      and st = "''packages''" and d = False and c = False and rv = False]
  from a h eleven_hits_render b g show ?thesis by simp
qed

text \<open>
  Claim C9: in JSON mode a pager that is forced on receives the response whether standard
  output is a terminal or not. In table mode the pager is used only on a terminal; with
  standard output elsewhere, forcing the pager on prints exactly what forcing it off
  prints.
\<close>

theorem pager_gate_by_mode:
  "print_results repr prints isatty data st d c True rv (Some True) = ([PagerJson data], None) \<and>
   (paged (fst (print_results repr prints isatty data st d c False rv up)) \<longrightarrow> isatty) \<and>
   print_results repr prints False data st d c False rv (Some True) =
     print_results repr prints False data st d c False rv (Some False)"
proof -
  have 1: "print_results repr prints isatty data st d c True rv (Some True) = ([PagerJson data], None)"
    by (simp add: print_results_def)
  have 3: "print_results repr prints False data st d c False rv (Some True) =
     print_results repr prints False data st d c False rv (Some False)"
    by (simp add: print_results_def Let_def cong: sum.case_cong if_cong)
  from 1 3 paged_imp_tty [of repr prints isatty data st d c rv up] show ?thesis by blast
qed

theorem pager_gate_by_mode_witness:
  "print_results (\<lambda>x. []) (\<lambda>i. True) False
      (JObj [(''hits'', JObj [(''total'', JObj [(''value'', JInt 11)]),
         (''hits'', JArr (replicate 11 (JObj [])))])])
      ''packages'' False False True False (Some True) =
     ([PagerJson (JObj [(''hits'', JObj [(''total'', JObj [(''value'', JInt 11)]),
         (''hits'', JArr (replicate 11 (JObj [])))])])], None) \<and>
   \<not> paged (fst (print_results (\<lambda>x. []) (\<lambda>i. True) False
      (JObj [(''hits'', JObj [(''total'', JObj [(''value'', JInt 11)]),
         (''hits'', JArr (replicate 11 (JObj [])))])])
      ''packages'' False False False False (Some True)))"
  using pager_gate_by_mode [where data = "JObj [(''hits'', JObj [(''total'', JObj [(''value'', JInt 11)]),
         (''hits'', JArr (replicate 11 (JObj [])))])]" and repr = "\<lambda>x. []" and prints = "\<lambda>i. True"
      and st = "''packages''" and d = False and c = False and rv = False and isatty = False
      and up = "Some True"]
  by blast

lemma description_rows_labels:
  "description_rows limit x cells = Inr cells' \<Longrightarrow>
   fst ` set cells' \<subseteq> insert ''Description'' (fst ` set cells)"
  by (cases x) (auto simp add: description_rows_def andthen_def split: if_splits)

text \<open>
  Claim C10: for an option whose table without details is \<open>t\<close>, the table with details
  has the rows of \<open>t\<close>, then a Default row if the value of \<open>option_default\<close> is true,
  then an Example row if the value of \<open>option_example\<close> is true; \<open>t\<close> itself has no such
  row. The cell is the first 100 characters of \<open>str\<close> of the value between the colour
  tags, with nothing added where it was cut. \<open>False\<close>, 0, the empty string and \<open>None\<close>
  are not true, so such a value gets no row although the field is there.
\<close>

theorem option_details_rows:
  assumes "format_option_result_table repr (JObj kvs) i False = Inr t"
  shows "format_option_result_table repr (JObj kvs) i True =
     Inr (t\<lparr>rows := rows t @
        (if truthy (case map_of kvs ''option_default'' of Some x \<Rightarrow> x | None \<Rightarrow> JNull) then
           [(''Default'',
             ''[yellow]'' @
             take 100 (py_str repr
               (case map_of kvs ''option_default'' of Some x \<Rightarrow> x | None \<Rightarrow> JNull)) @
             ''[/yellow]'')]
         else []) @
        (if truthy (case map_of kvs ''option_example'' of Some x \<Rightarrow> x | None \<Rightarrow> JNull) then
           [(''Example'',
             ''[green]'' @
             take 100 (py_str repr
               (case map_of kvs ''option_example'' of Some x \<Rightarrow> x | None \<Rightarrow> JNull)) @
             ''[/green]'')]
         else [])\<rparr>) \<and>
     fst ` set (rows t) \<subseteq> {''Option'', ''Type'', ''Description''} \<and>
     \<not> truthy (JBool False) \<and> \<not> truthy (JInt 0) \<and> \<not> truthy (JStr []) \<and> \<not> truthy JNull"
proof -
  let ?name = "case map_of kvs ''option_name'' of Some x \<Rightarrow> x | None \<Rightarrow> JStr ''unknown''"
  let ?type = "case map_of kvs ''option_type'' of Some x \<Rightarrow> x | None \<Rightarrow> JStr []"
  let ?desc = "case map_of kvs ''option_description'' of Some x \<Rightarrow> x | None \<Rightarrow> JStr []"
  let ?cells = "[(''Option'',
          index_markup i @ '' [bold magenta]'' @ py_str repr ?name @
          ''[/bold magenta]'')] @
        (if truthy ?type then
           [(''Type'', ''[cyan]'' @ py_str repr ?type @ ''[/cyan]'')]
         else [])"
  obtain cells where
    c: "description_rows MAX_OPTION_DESCRIPTION_LENGTH ?desc ?cells = Inr cells"
    using assms
    by (cases "description_rows MAX_OPTION_DESCRIPTION_LENGTH ?desc ?cells")
       (simp_all add: format_option_result_table_def andthen_def)
  have t: "t = \<lparr>field_style = ''bold magenta'', rows = cells\<rparr>"
    using assms c by (simp add: format_option_result_table_def andthen_def)
  have 1: "fst ` set (rows t) \<subseteq> {''Option'', ''Type'', ''Description''}"
    using description_rows_labels [OF c] t by (auto split: if_splits)
  have 2: "format_option_result_table repr (JObj kvs) i True =
     Inr (t\<lparr>rows := rows t @
        (if truthy (case map_of kvs ''option_default'' of Some x \<Rightarrow> x | None \<Rightarrow> JNull) then
           [(''Default'',
             ''[yellow]'' @
             take 100 (py_str repr
               (case map_of kvs ''option_default'' of Some x \<Rightarrow> x | None \<Rightarrow> JNull)) @
             ''[/yellow]'')]
         else []) @
        (if truthy (case map_of kvs ''option_example'' of Some x \<Rightarrow> x | None \<Rightarrow> JNull) then
           [(''Example'',
             ''[green]'' @
             take 100 (py_str repr
               (case map_of kvs ''option_example'' of Some x \<Rightarrow> x | None \<Rightarrow> JNull)) @
             ''[/green]'')]
         else [])\<rparr>)"
    using c t
    by (simp add: format_option_result_table_def andthen_def MAX_DEFAULT_LENGTH_def
        MAX_EXAMPLE_LENGTH_def)
  from 1 2 show ?thesis by simp
qed

theorem option_details_rows_witness:
  "format_option_result_table (\<lambda>x. [])
     (JObj [(''option_name'', JStr ''services.foo.enable''),
            (''option_type'', JStr ''boolean''),
            (''option_description'', JStr ''Whether to enable foo.''),
            (''option_default'', JBool False),
            (''option_example'', JStr (replicate 101 CHR ''x''))]) 1 True =
   Inr \<lparr>field_style = ''bold magenta'',
        rows = [(''Option'', index_markup 1 @ '' [bold magenta]services.foo.enable[/bold magenta]''),
                (''Type'', ''[cyan]boolean[/cyan]''),
                (''Description'', ''Whether to enable foo.''),
                (''Example'', ''[green]'' @ replicate 100 CHR ''x'' @ ''[/green]'')]\<rparr>"
proof -
  let ?kvs = "[(''option_name'', JStr ''services.foo.enable''),
            (''option_type'', JStr ''boolean''),
            (''option_description'', JStr ''Whether to enable foo.''),
            (''option_default'', JBool False),
            (''option_example'', JStr (replicate 101 CHR ''x''))]"
  have f: "format_option_result_table (\<lambda>x. []) (JObj ?kvs) 1 False =
    Inr \<lparr>field_style = ''bold magenta'',
        rows = [(''Option'', index_markup 1 @ '' [bold magenta]services.foo.enable[/bold magenta]''),
                (''Type'', ''[cyan]boolean[/cyan]''),
                (''Description'', ''Whether to enable foo.'')]\<rparr>"
    by (simp add: format_option_result_table_def andthen_def description_rows_def
        MAX_OPTION_DESCRIPTION_LENGTH_def)
  from option_details_rows [OF f] show ?thesis by simp
qed


end
